theory Spec2Isabelle
  imports Main "HOL-Library.Sublist" "HOL-Library.Multiset"
begin

section \<open>The build script \<open>setup.py\<close> of the Python wrapper\<close>

text \<open>
  \<open>setup.py\<close> is a straight-line script. It computes the list of compilation units,
  splits it by file extension, describes one Cython extension (\<open>classy\<close>) and one static
  library (\<open>myclib\<close>), runs \<open>generate_wrapper.py\<close>, cythonizes the extension and hands
  everything to \<open>setuptools.setup\<close>. Its inputs are the platform (\<open>os.name\<close>, which also
  selects the implementation of \<open>os.path\<close>), the value of \<open>numpy.get_include()\<close>, the file
  system of the working directory, and the library functions \<open>exec\<close>, \<open>cythonize\<close> and
  \<open>setup\<close>. Each of them is a parameter of the model.
\<close>

subsection \<open>Library functions on strings and paths\<close>

text \<open>\<open>str.endswith\<close> with a single suffix.\<close>

definition endswith :: "string \<Rightarrow> string \<Rightarrow> bool" where
  "endswith s suf \<longleftrightarrow>
     length suf \<le> length s \<and> drop (length s - length suf) s = suf"

text \<open>\<open>str.startswith\<close> with a single prefix.\<close>

definition startswith :: "string \<Rightarrow> string \<Rightarrow> bool" where
  "startswith s pre \<longleftrightarrow> take (length pre) s = pre"

definition backslash :: char where
  "backslash = CHR 0x5C"

text \<open>
  \<open>posixpath.join\<close> with two components: a second component that starts with the
  separator replaces the first; otherwise the two are concatenated, with one separator
  in between unless the first is empty or already ends with one.
\<close>

definition posixpath_join :: "string \<Rightarrow> string \<Rightarrow> string" where
  "posixpath_join a b =
     (if startswith b ''/'' then b
      else if a = [] \<or> endswith a ''/'' then a @ b
      else a @ ''/'' @ b)"

text \<open>
  \<open>ntpath.join\<close> with two components, for components without a drive or UNC prefix
  (every call of \<open>setup.py\<close> is of that kind): both the backslash and \<open>/\<close> count as
  separators when the components are inspected, and the separator that is inserted is
  the backslash.
\<close>

definition ntpath_join :: "string \<Rightarrow> string \<Rightarrow> string" where
  "ntpath_join a b =
     (if b \<noteq> [] \<and> hd b \<in> {backslash, CHR ''/''} then b
      else if a \<noteq> [] \<and> last a \<notin> {backslash, CHR ''/''} then a @ [backslash] @ b
      else a @ b)"

text \<open>
  \<open>os.path.join\<close>: module \<open>os\<close> binds \<open>os.path\<close> to \<open>ntpath\<close> exactly when \<open>os.name\<close> is
  \<open>'nt'\<close>, and to \<open>posixpath\<close> otherwise. The first argument is the value of \<open>os.name\<close>.
\<close>

definition os_path_join :: "string \<Rightarrow> string \<Rightarrow> string \<Rightarrow> string" where
  "os_path_join os_name a b =
     (if os_name = ''nt'' then ntpath_join a b else posixpath_join a b)"

subsection \<open>The lists of compilation units\<close>

text \<open>\<open>prepend = lambda dir, *fnames: list(map(lambda s: os.path.join(dir, s), fnames))\<close>\<close>

definition prepend :: "string \<Rightarrow> string \<Rightarrow> string list \<Rightarrow> string list" where
  "prepend os_name dir fnames = map (\<lambda>s. os_path_join os_name dir s) fnames"

definition source_files :: "string \<Rightarrow> string list" where
  "source_files os_name =
     prepend os_name ''hyrec''
       [''helium.c'',
        ''history.c'',
        ''hydrogen.c'',
        ''hyrec.c'',
        ''hyrectools.c'']
     @ prepend os_name ''source''
       [''background_module.cpp'',
        ''cosmology.cpp'',
        ''input_module.cpp'',
        ''lensing_module.cpp'',
        ''nonlinear_module.cpp'',
        ''perturbations_module.cpp'',
        ''primordial_module.cpp'',
        ''spectra_module.cpp'',
        ''thermodynamics_module.cpp'',
        ''transfer_module.cpp'']
     @ prepend os_name ''tools''
       [''arrays.c'',
        ''common.c'',
        ''dark_radiation.cpp'',
        ''dei_rkck.c'',
        ''evolver_ndf15.cpp'',
        ''evolver_rkck.c'',
        ''exceptions.cpp'',
        ''growTable.c'',
        ''hyperspherical.c'',
        ''non_cold_dark_matter.cpp'',
        ''parser.cpp'',
        ''quadrature.c'',
        ''sparse.c'',
        ''trigonometric_integrals.c'']"

definition c_source_files :: "string \<Rightarrow> string list" where
  "c_source_files os_name = [s \<leftarrow> source_files os_name. endswith s ''.c'']"

definition cpp_source_files :: "string \<Rightarrow> string list" where
  "cpp_source_files os_name = [s \<leftarrow> source_files os_name. endswith s ''.cpp'']"

subsection \<open>Include directories, the extension and the static library\<close>

definition root_folder :: string where
  "root_folder = ''.''"

text \<open>
  The list starts as \<open>[numpy.get_include()]\<close>; the loop appends one joined path per
  sub-folder, in order.
\<close>

definition include_dirs :: "string \<Rightarrow> string \<Rightarrow> string list" where
  "include_dirs os_name numpy_get_include =
     foldl (\<lambda>dirs sub_folder. dirs @ [os_path_join os_name root_folder sub_folder])
       [numpy_get_include]
       [''include'', ''main'', ''source'', ''tools'']"

text \<open>The arguments that \<open>setup.py\<close> passes to the constructor \<open>Extension\<close>.\<close>

record extension =
  ext_name :: string
  ext_sources :: "string list"
  ext_include_dirs :: "string list"
  ext_libraries :: "string list"
  ext_library_dirs :: "string list"
  ext_language :: string
  ext_extra_compile_args :: "string list"
  ext_define_macros :: "(string \<times> string) list"

definition classy_ext :: "string \<Rightarrow> string \<Rightarrow> extension" where
  "classy_ext os_name numpy_get_include =
     \<lparr> ext_name = ''classy'',
       ext_sources = [''classy.pyx''] @ cpp_source_files os_name,
       ext_include_dirs = include_dirs os_name numpy_get_include,
       ext_libraries = (if \<not> os_name = ''nt'' then [''m''] else []),
       ext_library_dirs = [root_folder],
       ext_language = ''c++'',
       ext_extra_compile_args =
         (if os_name \<noteq> ''nt'' then [''-std=c++17''] else [''/std:c++17'']),
       ext_define_macros = [(''NPY_NO_DEPRECATED_API'', ''NPY_1_7_API_VERSION'')] \<rparr>"

text \<open>
  \<open>myclib\<close> is a pair of the library's name and a dictionary with the two keys
  \<open>'sources'\<close> and \<open>'include_dirs'\<close>.
\<close>

definition myclib :: "string \<Rightarrow> string \<Rightarrow> string \<times> (string \<rightharpoonup> string list)" where
  "myclib os_name numpy_get_include =
     (''myclib'',
      [''sources'' \<mapsto> c_source_files os_name,
       ''include_dirs'' \<mapsto> include_dirs os_name numpy_get_include])"

subsection \<open>Running \<open>generate_wrapper.py\<close> and cythonizing\<close>

text \<open>
  The part of the environment that the script reads and that \<open>exec\<close> and \<open>cythonize\<close>
  may change: the text files of the working directory, by relative path. Further
  components of the environment live in the record's extension.
\<close>

record world =
  files :: "string \<rightharpoonup> string"

text \<open>
  An exception that leaves the script: the one that \<open>open\<close> raises for a missing file, or
  one raised inside \<open>exec\<close>, \<open>cythonize\<close> or \<open>setup\<close> (kept abstract).
\<close>

datatype 'x error = FileNotFoundError string | Raised 'x

text \<open>
  \<open>my_cythonize\<close> takes any positional and keyword arguments: it opens
  \<open>generate_wrapper.py\<close> for reading, executes what was read, then returns the result of
  \<open>cythonize\<close> on the very same arguments. A call returns an exception or a value,
  together with the environment it leaves behind. \<open>exec\<close> and \<open>cythonize\<close> are the first two
  arguments of the model; \<open>exec\<close> acts on the environment and leaves the names of the
  script bound as they are.
\<close>

definition my_cythonize ::
  "(string \<Rightarrow> 'm world_scheme \<Rightarrow> ('x error + unit) \<times> 'm world_scheme) \<Rightarrow>
   ('a \<Rightarrow> 'k \<Rightarrow> 'm world_scheme \<Rightarrow> ('x error + 'r) \<times> 'm world_scheme) \<Rightarrow>
   'a \<Rightarrow> 'k \<Rightarrow> 'm world_scheme \<Rightarrow> ('x error + 'r) \<times> 'm world_scheme" where
  "my_cythonize exec cythonize args kwargs w =
     (case files w ''generate_wrapper.py'' of
        None \<Rightarrow> (Inl (FileNotFoundError ''generate_wrapper.py''), w)
      | Some code \<Rightarrow>
          (case exec code w of
             (Inl e, w') \<Rightarrow> (Inl e, w')
           | (Inr _, w') \<Rightarrow> cythonize args kwargs w'))"

subsection \<open>The call of \<open>setup\<close>\<close>

datatype pyval = PyInt int | PyBool bool

record 'r setup_kwargs =
  libraries :: "(string \<times> (string \<rightharpoonup> string list)) list"
  ext_modules :: 'r
  packages :: "string list"
  package_dir :: "string \<rightharpoonup> string"
  package_data :: "string \<rightharpoonup> string list"

text \<open>The keyword arguments of \<open>setup\<close>, given the value that \<open>my_cythonize\<close> returned.\<close>

definition setup_args :: "string \<Rightarrow> string \<Rightarrow> 'r \<Rightarrow> 'r setup_kwargs" where
  "setup_args os_name numpy_get_include exts =
     \<lparr> libraries = [myclib os_name numpy_get_include],
       ext_modules = exts,
       packages = [''classy.bbn'', ''classy.hyrec''],
       package_dir = [''classy'' \<mapsto> []],
       package_data = [''classy.bbn'' \<mapsto> [''*.dat''], ''classy.hyrec'' \<mapsto> [''*.dat'']] \<rparr>"

text \<open>
  The whole script from the first statement to the call of \<open>setup\<close>. The argument
  \<open>ext_modules\<close> is evaluated before \<open>setup\<close> is entered, so an exception of
  \<open>my_cythonize\<close> leaves the script and \<open>setup\<close> is not called.
\<close>

definition setup_py ::
  "string \<Rightarrow> string \<Rightarrow>
   (string \<Rightarrow> 'm world_scheme \<Rightarrow> ('x error + unit) \<times> 'm world_scheme) \<Rightarrow>
   (extension list \<Rightarrow> (string \<rightharpoonup> pyval) \<Rightarrow> 'm world_scheme \<Rightarrow>
      ('x error + 'r) \<times> 'm world_scheme) \<Rightarrow>
   ('r setup_kwargs \<Rightarrow> 'm world_scheme \<Rightarrow> ('x error + 'd) \<times> 'm world_scheme) \<Rightarrow>
   'm world_scheme \<Rightarrow> ('x error + 'd) \<times> 'm world_scheme" where
  "setup_py os_name numpy_get_include exec cythonize setup w =
     (case my_cythonize exec cythonize
             [classy_ext os_name numpy_get_include]
             [''language_level'' \<mapsto> PyInt 3, ''annotate'' \<mapsto> PyBool False] w of
        (Inl e, w') \<Rightarrow> (Inl e, w')
      | (Inr exts, w') \<Rightarrow> setup (setup_args os_name numpy_get_include exts) w')"

subsection \<open>Auxiliary notions for the statements\<close>

text \<open>\<open>os.sep\<close>, the separator that \<open>os.path.join\<close> inserts.\<close>

definition os_sep :: "string \<Rightarrow> char" where
  "os_sep os_name = (if os_name = ''nt'' then backslash else CHR ''/'')"

section \<open>Failure propagation of the per-wavenumber pipeline\<close>

text \<open>
  The perturbation and transfer stages run one task per wavenumber. The C++ units that
  implement them are only named by \<open>source_files\<close>; their code is not among the sources
  verified here, so this section follows the specification's sections on concurrency
  and on error handling.
\<close>

text \<open>
  Modelled from the spec: the error taxonomy of the pipeline, which the C++ units
  define and \<open>setup.py\<close> does not.
\<close>

datatype stage_error =
  ConfigurationError | NonConvergence | SingularJacobian | BesselRecursionUnstable
  | OutOfDomain

text \<open>
  Modelled from the spec: the dispatch of the per-wavenumber tasks, whose code is in the
  C++ units. Every task runs to completion, whatever the outcome of the others, and
  writes only the entry of its own wavenumber.
\<close>

definition run_tasks ::
  "('k \<Rightarrow> stage_error + 't) \<Rightarrow> 'k list \<Rightarrow> ('k \<times> (stage_error + 't)) list" where
  "run_tasks task ks = map (\<lambda>k. (k, task k)) ks"

text \<open>
  Modelled from the spec: the aggregation of the per-wavenumber failures, whose code is
  in the C++ units. Each failing wavenumber contributes its error, in the order of the
  wavenumbers.
\<close>

fun failures :: "('k \<times> (stage_error + 't)) list \<Rightarrow> ('k \<times> stage_error) list" where
  "failures [] = []"
| "failures ((k, Inl e) # rs) = (k, e) # failures rs"
| "failures ((k, Inr t) # rs) = failures rs"

text \<open>
  Modelled from the spec: the merge of the per-wavenumber results, whose code is in the
  C++ units. The tables are indexed by wavenumber, in the order of the wavenumbers.
\<close>

fun tables :: "('k \<times> (stage_error + 't)) list \<Rightarrow> ('k \<times> 't) list" where
  "tables [] = []"
| "tables ((k, Inl e) # rs) = tables rs"
| "tables ((k, Inr t) # rs) = (k, t) # tables rs"

text \<open>
  Modelled from the spec: the propagation policy of the pipeline, whose code is in the
  C++ units. The caller gets the single aggregated report (the offending wavenumbers
  with their errors) if any task failed, and the tables of all wavenumbers otherwise.
\<close>

definition pipeline ::
  "('k \<Rightarrow> stage_error + 't) \<Rightarrow> 'k list \<Rightarrow> ('k \<times> stage_error) list + ('k \<times> 't) list" where
  "pipeline task ks =
     (let rs = run_tasks task ks
      in if failures rs = [] then Inr (tables rs) else Inl (failures rs))"

section \<open>Facts about the lists of compilation units\<close>

subsection \<open>Suffixes and joined paths\<close>

lemma endswith_suffix: "endswith s suf \<longleftrightarrow> suffix suf s"
  unfolding endswith_def
proof
  assume "length suf \<le> length s \<and> drop (length s - length suf) s = suf"
  then have "s = take (length s - length suf) s @ suf" by (metis append_take_drop_id)
  then show "suffix suf s" by (metis suffixI)
next
  assume "suffix suf s"
  then obtain zs where "s = zs @ suf" by (auto simp: suffix_def)
  then show "length suf \<le> length s \<and> drop (length s - length suf) s = suf" by simp
qed

text \<open>No name ends with both extensions: the last characters differ.\<close>

lemma c_or_cpp_exclusive: "\<not> (endswith s ''.c'' \<and> endswith s ''.cpp'')"
  by (auto simp: endswith_suffix suffix_def)

text \<open>
  Joining a directory name and a file name that carry no separator at the seam puts
  exactly one \<open>os.sep\<close> between them, on either platform.
\<close>

lemma os_path_join_plain:
  assumes "d \<noteq> []" "last d \<notin> {backslash, CHR ''/''}"
    and "f \<noteq> []" "hd f \<notin> {backslash, CHR ''/''}"
  shows "os_path_join n d f = d @ os_sep n # f"
proof -
  from assms(3,4) have nf: "\<not> startswith f ''/''"
    by (cases f) (auto simp: startswith_def)
  from assms(1,2) have nd: "\<not> endswith d ''/''"
    by (auto simp: endswith_suffix suffix_def)
  show ?thesis using assms nf nd
    by (simp add: os_path_join_def ntpath_join_def posixpath_join_def os_sep_def)
qed

lemma os_sep_posix: "n \<noteq> ''nt'' \<Longrightarrow> os_sep n = CHR ''/''"
  by (simp add: os_sep_def)

lemma os_sep_nt: "os_sep ''nt'' = backslash"
  by (simp add: os_sep_def)

subsection \<open>The three lists, entry by entry\<close>

lemma source_files_explicit:
  "source_files n =
     map (\<lambda>f. ''hyrec'' @ os_sep n # f)
       [''helium.c'', ''history.c'', ''hydrogen.c'', ''hyrec.c'', ''hyrectools.c'']
     @ map (\<lambda>f. ''source'' @ os_sep n # f)
       [''background_module.cpp'', ''cosmology.cpp'', ''input_module.cpp'',
        ''lensing_module.cpp'', ''nonlinear_module.cpp'', ''perturbations_module.cpp'',
        ''primordial_module.cpp'', ''spectra_module.cpp'', ''thermodynamics_module.cpp'',
        ''transfer_module.cpp'']
     @ map (\<lambda>f. ''tools'' @ os_sep n # f)
       [''arrays.c'', ''common.c'', ''dark_radiation.cpp'', ''dei_rkck.c'',
        ''evolver_ndf15.cpp'', ''evolver_rkck.c'', ''exceptions.cpp'', ''growTable.c'',
        ''hyperspherical.c'', ''non_cold_dark_matter.cpp'', ''parser.cpp'',
        ''quadrature.c'', ''sparse.c'', ''trigonometric_integrals.c'']"
  unfolding source_files_def prepend_def
  by (simp add: os_path_join_plain backslash_def)

lemma c_source_files_explicit:
  "c_source_files n =
     map (\<lambda>f. ''hyrec'' @ os_sep n # f)
       [''helium.c'', ''history.c'', ''hydrogen.c'', ''hyrec.c'', ''hyrectools.c'']
     @ map (\<lambda>f. ''tools'' @ os_sep n # f)
       [''arrays.c'', ''common.c'', ''dei_rkck.c'', ''evolver_rkck.c'', ''growTable.c'',
        ''hyperspherical.c'', ''quadrature.c'', ''sparse.c'', ''trigonometric_integrals.c'']"
  unfolding c_source_files_def source_files_explicit
  by (simp add: endswith_def)

lemma cpp_source_files_explicit:
  "cpp_source_files n =
     map (\<lambda>f. ''source'' @ os_sep n # f)
       [''background_module.cpp'', ''cosmology.cpp'', ''input_module.cpp'',
        ''lensing_module.cpp'', ''nonlinear_module.cpp'', ''perturbations_module.cpp'',
        ''primordial_module.cpp'', ''spectra_module.cpp'', ''thermodynamics_module.cpp'',
        ''transfer_module.cpp'']
     @ map (\<lambda>f. ''tools'' @ os_sep n # f)
       [''dark_radiation.cpp'', ''evolver_ndf15.cpp'', ''exceptions.cpp'',
        ''non_cold_dark_matter.cpp'', ''parser.cpp'']"
  unfolding cpp_source_files_def source_files_explicit
  by (simp add: endswith_def)

lemma source_entry_c_or_cpp:
  "s \<in> set (source_files n) \<Longrightarrow> endswith s ''.c'' \<or> endswith s ''.cpp''"
  unfolding source_files_explicit by (auto simp: endswith_def)

lemma source_entry_cpp_iff:
  "s \<in> set (source_files n) \<Longrightarrow> endswith s ''.cpp'' \<longleftrightarrow> \<not> endswith s ''.c''"
  using source_entry_c_or_cpp c_or_cpp_exclusive by blast

lemma cpp_source_files_complement:
  "cpp_source_files n = [s \<leftarrow> source_files n. \<not> endswith s ''.c'']"
  unfolding cpp_source_files_def
  by (rule filter_cong) (simp_all add: source_entry_cpp_iff)

lemma classy_pyx_not_source: "''classy.pyx'' \<notin> set (source_files n)"
  unfolding source_files_explicit by simp

lemma classy_ext_sources: "ext_sources (classy_ext n ni) = ''classy.pyx'' # cpp_source_files n"
  by (simp add: classy_ext_def)

lemma myclib_sources: "snd (myclib n ni) ''sources'' = Some (c_source_files n)"
  by (simp add: myclib_def)


section \<open>The size of the build\<close>

text \<open>
  Claim C3. The list \<open>source_files\<close> is the concatenation of the groups \<open>hyrec\<close> (5
  entries), \<open>source\<close> (10) and \<open>tools\<close> (14): it has 29 entries on every platform. That is
  roughly two dozen in the sense that it lies within half a dozen of 24.
\<close>

theorem source_files_count:
  "length (source_files n) = 5 + 10 + 14
   \<and> 2 * 12 - 6 \<le> length (source_files n) \<and> length (source_files n) \<le> 2 * 12 + 6"
  unfolding source_files_explicit by simp

section \<open>The split by file extension\<close>

text \<open>
  Claim C8. Every entry of \<open>source_files\<close> ends with exactly one of \<open>.c\<close> and \<open>.cpp\<close>. The
  lists \<open>c_source_files\<close> and \<open>cpp_source_files\<close> are disjoint, each is a subsequence of
  \<open>source_files\<close> (so the order is kept), and together they hold every entry of
  \<open>source_files\<close> with its multiplicity, which is one. The extension \<open>classy\<close> is built
  from \<open>classy.pyx\<close> and \<open>cpp_source_files\<close>, the library \<open>myclib\<close> from \<open>c_source_files\<close>;
  hence every compilation unit goes to exactly one of the two products, the \<open>.cpp\<close>
  units to \<open>classy\<close> and the \<open>.c\<close> units to \<open>myclib\<close>.
\<close>

theorem source_files_partition:
  "(\<forall>s \<in> set (source_files n). endswith s ''.c'' \<noteq> endswith s ''.cpp'')
   \<and> set (c_source_files n) \<inter> set (cpp_source_files n) = {}
   \<and> subseq (c_source_files n) (source_files n)
   \<and> subseq (cpp_source_files n) (source_files n)
   \<and> mset (c_source_files n) + mset (cpp_source_files n) = mset (source_files n)
   \<and> distinct (source_files n)
   \<and> ext_name (classy_ext n ni) = ''classy''
   \<and> ext_sources (classy_ext n ni) = ''classy.pyx'' # cpp_source_files n
   \<and> fst (myclib n ni) = ''myclib''
   \<and> snd (myclib n ni) ''sources'' = Some (c_source_files n)
   \<and> (\<forall>s \<in> set (source_files n).
        (s \<in> set (ext_sources (classy_ext n ni)) \<longleftrightarrow> endswith s ''.cpp'')
        \<and> (s \<in> set (c_source_files n) \<longleftrightarrow> endswith s ''.c'')
        \<and> (s \<in> set (ext_sources (classy_ext n ni))) \<noteq> (s \<in> set (c_source_files n)))"
proof -
  have excl: "\<forall>s \<in> set (source_files n). endswith s ''.c'' \<noteq> endswith s ''.cpp''"
    using source_entry_cpp_iff by blast
  have disj: "set (c_source_files n) \<inter> set (cpp_source_files n) = {}"
    unfolding c_source_files_def cpp_source_files_def
    using c_or_cpp_exclusive by auto
  have sub1: "subseq (c_source_files n) (source_files n)"
    unfolding c_source_files_def by simp
  have sub2: "subseq (cpp_source_files n) (source_files n)"
    unfolding cpp_source_files_def by simp
  have un: "mset (c_source_files n) + mset (cpp_source_files n) = mset (source_files n)"
    unfolding cpp_source_files_complement c_source_files_def by simp
  have dist: "distinct (source_files n)"
    unfolding source_files_explicit by simp
  have ext: "ext_sources (classy_ext n ni) = ''classy.pyx'' # cpp_source_files n"
    "ext_name (classy_ext n ni) = ''classy''"
    by (simp_all add: classy_ext_def)
  have lib: "fst (myclib n ni) = ''myclib''"
    "snd (myclib n ni) ''sources'' = Some (c_source_files n)"
    by (simp_all add: myclib_def)
  have prod: "\<forall>s \<in> set (source_files n).
        (s \<in> set (ext_sources (classy_ext n ni)) \<longleftrightarrow> endswith s ''.cpp'')
        \<and> (s \<in> set (c_source_files n) \<longleftrightarrow> endswith s ''.c'')
        \<and> (s \<in> set (ext_sources (classy_ext n ni))) \<noteq> (s \<in> set (c_source_files n))"
  proof
    fix s assume s: "s \<in> set (source_files n)"
    then have ne: "s \<noteq> ''classy.pyx''" using classy_pyx_not_source by blast
    have a: "s \<in> set (ext_sources (classy_ext n ni)) \<longleftrightarrow> endswith s ''.cpp''"
      using s ne by (simp add: ext cpp_source_files_def)
    have b: "s \<in> set (c_source_files n) \<longleftrightarrow> endswith s ''.c''"
      using s by (simp add: c_source_files_def)
    from a b excl s
    show "(s \<in> set (ext_sources (classy_ext n ni)) \<longleftrightarrow> endswith s ''.cpp'')
        \<and> (s \<in> set (c_source_files n) \<longleftrightarrow> endswith s ''.c'')
        \<and> (s \<in> set (ext_sources (classy_ext n ni))) \<noteq> (s \<in> set (c_source_files n))"
      by blast
  qed
  from excl disj sub1 sub2 un dist ext lib prod show ?thesis by blast
qed

text \<open>
  The partition at two entries of the list on a POSIX platform: a C unit of the tools
  group and a C++ unit of the source group.
\<close>

theorem source_files_partition_witness:
  "''tools/sparse.c'' \<in> set (source_files ''posix'')
   \<and> endswith ''tools/sparse.c'' ''.c'' \<and> \<not> endswith ''tools/sparse.c'' ''.cpp''
   \<and> ''tools/sparse.c'' \<in> set (c_source_files ''posix'')
   \<and> ''tools/sparse.c'' \<notin> set (ext_sources (classy_ext ''posix'' ''numpy/include''))
   \<and> ''source/cosmology.cpp'' \<in> set (source_files ''posix'')
   \<and> endswith ''source/cosmology.cpp'' ''.cpp'' \<and> \<not> endswith ''source/cosmology.cpp'' ''.c''
   \<and> ''source/cosmology.cpp'' \<notin> set (c_source_files ''posix'')
   \<and> ''source/cosmology.cpp'' \<in> set (ext_sources (classy_ext ''posix'' ''numpy/include''))"
proof -
  have m1: "''tools/sparse.c'' \<in> set (source_files ''posix'')"
    by (simp add: source_files_explicit os_sep_def)
  have m2: "''source/cosmology.cpp'' \<in> set (source_files ''posix'')"
    by (simp add: source_files_explicit os_sep_def)
  have e1: "endswith ''tools/sparse.c'' ''.c''" by (simp add: endswith_def)
  have e2: "endswith ''source/cosmology.cpp'' ''.cpp''" by (simp add: endswith_def)
  show ?thesis
    using source_files_partition [of "''posix''" "''numpy/include''"] m1 m2 e1 e2
    by blast
qed

section \<open>The core pipeline components in the build\<close>

text \<open>
  Claim C1. The eight core components of the pipeline are the background solver
  (\<open>background_module.cpp\<close>), the thermodynamics solver (\<open>thermodynamics_module.cpp\<close>), the
  perturbation engine (\<open>perturbations_module.cpp\<close>), the transfer and projection engine
  (\<open>transfer_module.cpp\<close>), the spectra assembler (\<open>spectra_module.cpp\<close>), the nonlinear
  corrector (\<open>nonlinear_module.cpp\<close>), the lensing convolver (\<open>lensing_module.cpp\<close>) and
  the primordial spectrum model (\<open>primordial_module.cpp\<close>). For each of these file names,
  exactly one entry of \<open>source_files\<close> ends with it, and that entry is the file of that
  name in the directory \<open>source\<close>, that is \<open>os.path.join('source', u)\<close>, which is spelled
  with \<open>/\<close> wherever \<open>os.name\<close> is not \<open>'nt'\<close>. The entry ends with \<open>.cpp\<close>, belongs to
  \<open>cpp_source_files\<close> and therefore to the sources of the extension \<open>classy\<close>.
\<close>

theorem core_units_in_classy:
  "\<forall>u \<in> set [''background_module.cpp'', ''thermodynamics_module.cpp'',
               ''perturbations_module.cpp'', ''transfer_module.cpp'',
               ''spectra_module.cpp'', ''nonlinear_module.cpp'',
               ''lensing_module.cpp'', ''primordial_module.cpp''].
     [s \<leftarrow> source_files n. endswith s u] = [os_path_join n ''source'' u]
     \<and> os_path_join n ''source'' u = ''source'' @ os_sep n # u
     \<and> (n \<noteq> ''nt'' \<longrightarrow> os_path_join n ''source'' u = ''source/'' @ u)
     \<and> endswith (os_path_join n ''source'' u) ''.cpp''
     \<and> os_path_join n ''source'' u \<in> set (cpp_source_files n)
     \<and> os_path_join n ''source'' u \<in> set (ext_sources (classy_ext n ni))
     \<and> ext_name (classy_ext n ni) = ''classy''"
proof
  fix u
  assume "u \<in> set [''background_module.cpp'', ''thermodynamics_module.cpp'',
               ''perturbations_module.cpp'', ''transfer_module.cpp'',
               ''spectra_module.cpp'', ''nonlinear_module.cpp'',
               ''lensing_module.cpp'', ''primordial_module.cpp'']"
  then have u: "u \<in> {''background_module.cpp'', ''thermodynamics_module.cpp'',
               ''perturbations_module.cpp'', ''transfer_module.cpp'',
               ''spectra_module.cpp'', ''nonlinear_module.cpp'',
               ''lensing_module.cpp'', ''primordial_module.cpp''}"
    by simp
  have j: "os_path_join n ''source'' u = ''source'' @ os_sep n # u"
    using u by (elim insertE emptyE; simp add: os_path_join_plain backslash_def)
  have p: "n \<noteq> ''nt'' \<longrightarrow> os_path_join n ''source'' u = ''source/'' @ u"
    unfolding j by (simp add: os_sep_posix)
  have one: "[s \<leftarrow> source_files n. endswith s u] = [''source'' @ os_sep n # u]"
    using u by (elim insertE emptyE; simp add: source_files_explicit endswith_def)
  have cpp: "endswith (''source'' @ os_sep n # u) ''.cpp''"
    using u by (elim insertE emptyE; simp add: endswith_def)
  have mem: "''source'' @ os_sep n # u \<in> set (cpp_source_files n)"
    using u by (elim insertE emptyE; simp add: cpp_source_files_explicit)
  have ext: "''source'' @ os_sep n # u \<in> set (ext_sources (classy_ext n ni))"
    using mem by (simp add: classy_ext_sources)
  have nm: "ext_name (classy_ext n ni) = ''classy''" by (simp add: classy_ext_def)
  from j p one cpp mem ext nm
  show "[s \<leftarrow> source_files n. endswith s u] = [os_path_join n ''source'' u]
     \<and> os_path_join n ''source'' u = ''source'' @ os_sep n # u
     \<and> (n \<noteq> ''nt'' \<longrightarrow> os_path_join n ''source'' u = ''source/'' @ u)
     \<and> endswith (os_path_join n ''source'' u) ''.cpp''
     \<and> os_path_join n ''source'' u \<in> set (cpp_source_files n)
     \<and> os_path_join n ''source'' u \<in> set (ext_sources (classy_ext n ni))
     \<and> ext_name (classy_ext n ni) = ''classy''"
    by simp
qed

text \<open>The perturbation engine on a POSIX platform.\<close>

theorem core_units_in_classy_witness:
  "[s \<leftarrow> source_files ''posix''. endswith s ''perturbations_module.cpp'']
     = [''source/perturbations_module.cpp'']
   \<and> ''source/perturbations_module.cpp'' \<in> set (cpp_source_files ''posix'')
   \<and> ''source/perturbations_module.cpp''
        \<in> set (ext_sources (classy_ext ''posix'' ''numpy/include''))"
proof -
  have u: "''perturbations_module.cpp'' \<in> set [''background_module.cpp'', ''thermodynamics_module.cpp'',
               ''perturbations_module.cpp'', ''transfer_module.cpp'',
               ''spectra_module.cpp'', ''nonlinear_module.cpp'',
               ''lensing_module.cpp'', ''primordial_module.cpp'']"
    by simp
  have nn: "''posix'' \<noteq> ''nt''" by simp
  have a: "''source/'' @ ''perturbations_module.cpp'' = ''source/perturbations_module.cpp''"
    by simp
  show ?thesis
    using core_units_in_classy [of "''posix''" "''numpy/include''", rule_format, OF u] nn
    unfolding a by metis
qed


section \<open>The evolver units\<close>

text \<open>
  Claim C2. The build provides both stepping families of the evolver and the sparse
  kernel it depends on. On every platform \<open>source_files\<close> contains the implicit multistep
  evolver unit \<open>evolver_ndf15.cpp\<close>, the explicit Runge-Kutta evolver unit \<open>evolver_rkck.c\<close>
  and the sparse linear-algebra unit \<open>sparse.c\<close>, each as the file of that name in the
  directory \<open>tools\<close>, that is \<open>os.path.join('tools', f)\<close>: the directory, \<open>os.sep\<close> and the
  file name, spelled \<open>tools/f\<close> exactly when \<open>os.name\<close> is not \<open>'nt'\<close>. Each unit reaches a
  build product: the C++ unit is a source of the extension \<open>classy\<close>, the two C units are
  sources of the static library \<open>myclib\<close>, which is the library handed to \<open>setup\<close>.
\<close>

theorem evolver_units_present:
  "(\<forall>f \<in> set [''evolver_ndf15.cpp'', ''evolver_rkck.c'', ''sparse.c''].
      os_path_join n ''tools'' f \<in> set (source_files n)
      \<and> os_path_join n ''tools'' f = ''tools'' @ os_sep n # f
      \<and> (''tools/'' @ f \<in> set (source_files n) \<longleftrightarrow> n \<noteq> ''nt''))
   \<and> os_path_join n ''tools'' ''evolver_ndf15.cpp'' \<in> set (ext_sources (classy_ext n ni))
   \<and> os_path_join n ''tools'' ''evolver_rkck.c'' \<in> set (c_source_files n)
   \<and> os_path_join n ''tools'' ''sparse.c'' \<in> set (c_source_files n)
   \<and> ext_name (classy_ext n ni) = ''classy''
   \<and> fst (myclib n ni) = ''myclib''
   \<and> snd (myclib n ni) ''sources'' = Some (c_source_files n)
   \<and> libraries (setup_args n ni exts) = [myclib n ni]"
proof -
  have units: "\<forall>f \<in> set [''evolver_ndf15.cpp'', ''evolver_rkck.c'', ''sparse.c''].
      os_path_join n ''tools'' f \<in> set (source_files n)
      \<and> os_path_join n ''tools'' f = ''tools'' @ os_sep n # f
      \<and> (''tools/'' @ f \<in> set (source_files n) \<longleftrightarrow> n \<noteq> ''nt'')"
  proof
    fix f
    assume "f \<in> set [''evolver_ndf15.cpp'', ''evolver_rkck.c'', ''sparse.c'']"
    then have f: "f \<in> {''evolver_ndf15.cpp'', ''evolver_rkck.c'', ''sparse.c''}"
      by simp
    have j: "os_path_join n ''tools'' f = ''tools'' @ os_sep n # f"
      using f by (elim insertE emptyE; simp add: os_path_join_plain backslash_def)
    have m: "''tools'' @ os_sep n # f \<in> set (source_files n)"
      using f by (elim insertE emptyE; simp add: source_files_explicit)
    have l: "''tools/'' @ f \<in> set (source_files n) \<longleftrightarrow> n \<noteq> ''nt''"
    proof (cases "n = ''nt''")
      case True
      with f show ?thesis
        by (elim insertE emptyE; simp add: source_files_explicit os_sep_nt backslash_def)
    next
      case False
      with f show ?thesis
        by (elim insertE emptyE; simp add: source_files_explicit os_sep_posix)
    qed
    from j m l
    show "os_path_join n ''tools'' f \<in> set (source_files n)
       \<and> os_path_join n ''tools'' f = ''tools'' @ os_sep n # f
       \<and> (''tools/'' @ f \<in> set (source_files n) \<longleftrightarrow> n \<noteq> ''nt'')"
      by simp
  qed
  have ndf: "os_path_join n ''tools'' ''evolver_ndf15.cpp''
               \<in> set (ext_sources (classy_ext n ni))"
    by (simp add: os_path_join_plain backslash_def classy_ext_sources
        cpp_source_files_explicit)
  have rkck: "os_path_join n ''tools'' ''evolver_rkck.c'' \<in> set (c_source_files n)"
    by (simp add: os_path_join_plain backslash_def c_source_files_explicit)
  have sparse: "os_path_join n ''tools'' ''sparse.c'' \<in> set (c_source_files n)"
    by (simp add: os_path_join_plain backslash_def c_source_files_explicit)
  have nm: "ext_name (classy_ext n ni) = ''classy''" by (simp add: classy_ext_def)
  have lib: "fst (myclib n ni) = ''myclib''" by (simp add: myclib_def)
  have libs: "libraries (setup_args n ni exts) = [myclib n ni]"
    by (simp add: setup_args_def)
  from units ndf rkck sparse nm lib myclib_sources [of n ni] libs
  show ?thesis by blast
qed

text \<open>
  The implicit evolver under its POSIX name, and the same unit on Windows, where it is
  in the list and among the sources of \<open>classy\<close> as well.
\<close>

theorem evolver_units_present_witness:
  "''tools/evolver_ndf15.cpp'' \<in> set (source_files ''posix'')
   \<and> os_path_join ''posix'' ''tools'' ''evolver_ndf15.cpp'' = ''tools/evolver_ndf15.cpp''
   \<and> os_path_join ''nt'' ''tools'' ''evolver_ndf15.cpp'' \<in> set (source_files ''nt'')
   \<and> os_path_join ''nt'' ''tools'' ''evolver_ndf15.cpp''
        \<in> set (ext_sources (classy_ext ''nt'' ''numpy/include''))"
proof -
  have f: "''evolver_ndf15.cpp'' \<in> set [''evolver_ndf15.cpp'', ''evolver_rkck.c'', ''sparse.c'']"
    by simp
  have nn: "''posix'' \<noteq> ''nt''" by simp
  have a: "''tools/'' @ ''evolver_ndf15.cpp'' = ''tools/evolver_ndf15.cpp''" by simp
  have s: "''tools'' @ os_sep ''posix'' # ''evolver_ndf15.cpp'' = ''tools/evolver_ndf15.cpp''"
    by (simp add: os_sep_def)
  note posix = evolver_units_present
    [where n = "''posix''" and ni = "''numpy/include''" and exts = "()",
      THEN conjunct1, rule_format, OF f]
  note nt = evolver_units_present
    [where n = "''nt''" and ni = "''numpy/include''" and exts = "()",
      THEN conjunct1, rule_format, OF f]
  note nt_classy = evolver_units_present
    [where n = "''nt''" and ni = "''numpy/include''" and exts = "()",
      THEN conjunct2, THEN conjunct1]
  from posix nt nt_classy nn show ?thesis unfolding a s by blast
qed

section \<open>The recombination module\<close>



section \<open>The special-function units\<close>

text \<open>
  Claim C5. The special-function units are present in the build. On every platform the
  units \<open>hyperspherical.c\<close> and \<open>quadrature.c\<close> are entries of \<open>source_files\<close>, each as the
  file of that name in the directory \<open>tools\<close>, that is \<open>os.path.join('tools', f)\<close>, spelled
  \<open>tools/f\<close> exactly when \<open>os.name\<close> is not \<open>'nt'\<close>. Each ends with \<open>.c\<close>, is selected into
  \<open>c_source_files\<close>, the sources of the static library \<open>myclib\<close>, and is not among the
  sources of the extension \<open>classy\<close>.
\<close>

theorem special_function_units_in_myclib:
  "(\<forall>f \<in> set [''hyperspherical.c'', ''quadrature.c''].
      os_path_join n ''tools'' f \<in> set (source_files n)
      \<and> os_path_join n ''tools'' f = ''tools'' @ os_sep n # f
      \<and> endswith (os_path_join n ''tools'' f) ''.c''
      \<and> os_path_join n ''tools'' f \<in> set (c_source_files n)
      \<and> os_path_join n ''tools'' f \<notin> set (ext_sources (classy_ext n ni))
      \<and> (''tools/'' @ f \<in> set (source_files n) \<longleftrightarrow> n \<noteq> ''nt'')
      \<and> (''tools/'' @ f \<in> set (c_source_files n) \<longleftrightarrow> n \<noteq> ''nt'')
      \<and> ''tools/'' @ f \<notin> set (ext_sources (classy_ext n ni)))
   \<and> fst (myclib n ni) = ''myclib''
   \<and> snd (myclib n ni) ''sources'' = Some (c_source_files n)
   \<and> ext_name (classy_ext n ni) = ''classy''"
proof -
  have units: "\<forall>f \<in> set [''hyperspherical.c'', ''quadrature.c''].
      os_path_join n ''tools'' f \<in> set (source_files n)
      \<and> os_path_join n ''tools'' f = ''tools'' @ os_sep n # f
      \<and> endswith (os_path_join n ''tools'' f) ''.c''
      \<and> os_path_join n ''tools'' f \<in> set (c_source_files n)
      \<and> os_path_join n ''tools'' f \<notin> set (ext_sources (classy_ext n ni))
      \<and> (''tools/'' @ f \<in> set (source_files n) \<longleftrightarrow> n \<noteq> ''nt'')
      \<and> (''tools/'' @ f \<in> set (c_source_files n) \<longleftrightarrow> n \<noteq> ''nt'')
      \<and> ''tools/'' @ f \<notin> set (ext_sources (classy_ext n ni))"
  proof
    fix f
    assume "f \<in> set [''hyperspherical.c'', ''quadrature.c'']"
    then have f: "f \<in> {''hyperspherical.c'', ''quadrature.c''}"
      by simp
    have j: "os_path_join n ''tools'' f = ''tools'' @ os_sep n # f"
      using f by (elim insertE emptyE; simp add: os_path_join_plain backslash_def)
    have m: "''tools'' @ os_sep n # f \<in> set (source_files n)"
      using f by (elim insertE emptyE; simp add: source_files_explicit)
    have e: "endswith (''tools'' @ os_sep n # f) ''.c''"
      using f by (elim insertE emptyE; simp add: endswith_def)
    have c: "''tools'' @ os_sep n # f \<in> set (c_source_files n)"
      using m e by (simp add: c_source_files_def)
    have x: "''tools'' @ os_sep n # f \<notin> set (ext_sources (classy_ext n ni))"
      using e c_or_cpp_exclusive [of "''tools'' @ os_sep n # f"] f
      by (auto simp: classy_ext_sources cpp_source_files_def)
    have l: "''tools/'' @ f \<in> set (source_files n) \<longleftrightarrow> n \<noteq> ''nt''"
    proof (cases "n = ''nt''")
      case True
      with f show ?thesis
        by (elim insertE emptyE; simp add: source_files_explicit os_sep_nt backslash_def)
    next
      case False
      with f show ?thesis
        by (elim insertE emptyE; simp add: source_files_explicit os_sep_posix)
    qed
    have e': "endswith (''tools/'' @ f) ''.c''"
      using f by (elim insertE emptyE; simp add: endswith_def)
    have l': "''tools/'' @ f \<in> set (c_source_files n) \<longleftrightarrow> n \<noteq> ''nt''"
      using l e' by (simp add: c_source_files_def)
    have x': "''tools/'' @ f \<notin> set (ext_sources (classy_ext n ni))"
      using e' c_or_cpp_exclusive [of "''tools/'' @ f"] f
      by (auto simp: classy_ext_sources cpp_source_files_def)
    from j m e c x l l' x'
    show "os_path_join n ''tools'' f \<in> set (source_files n)
      \<and> os_path_join n ''tools'' f = ''tools'' @ os_sep n # f
      \<and> endswith (os_path_join n ''tools'' f) ''.c''
      \<and> os_path_join n ''tools'' f \<in> set (c_source_files n)
      \<and> os_path_join n ''tools'' f \<notin> set (ext_sources (classy_ext n ni))
      \<and> (''tools/'' @ f \<in> set (source_files n) \<longleftrightarrow> n \<noteq> ''nt'')
      \<and> (''tools/'' @ f \<in> set (c_source_files n) \<longleftrightarrow> n \<noteq> ''nt'')
      \<and> ''tools/'' @ f \<notin> set (ext_sources (classy_ext n ni))"
      by simp
  qed
  have lib: "fst (myclib n ni) = ''myclib''" by (simp add: myclib_def)
  have nm: "ext_name (classy_ext n ni) = ''classy''" by (simp add: classy_ext_def)
  from units lib myclib_sources [of n ni] nm show ?thesis by blast
qed

text \<open>The quadrature unit on a POSIX platform.\<close>

theorem special_function_units_in_myclib_witness:
  "''tools/quadrature.c'' \<in> set (source_files ''posix'')
   \<and> ''tools/quadrature.c'' \<in> set (c_source_files ''posix'')
   \<and> ''tools/quadrature.c'' \<notin> set (ext_sources (classy_ext ''posix'' ''numpy/include''))"
proof -
  have f: "''quadrature.c'' \<in> set [''hyperspherical.c'', ''quadrature.c'']"
    by simp
  have nn: "''posix'' \<noteq> ''nt''" by simp
  have a: "''tools/'' @ ''quadrature.c'' = ''tools/quadrature.c''" by simp
  note posix = special_function_units_in_myclib
    [where n = "''posix''" and ni = "''numpy/include''", THEN conjunct1, rule_format, OF f]
  from posix nn show ?thesis unfolding a by blast
qed

section \<open>The extension on the two platforms\<close>

text \<open>
  Claim C10. The list of libraries of the extension \<open>classy\<close> is \<open>['m']\<close> if and only if
  \<open>os.name\<close> is not \<open>'nt'\<close>, and it is empty on Windows. The extra compile arguments are
  \<open>['-std=c++17']\<close> off Windows and \<open>['/std:c++17']\<close> on Windows, so one of the two spellings
  of the C++17 flag is passed on every platform, and the language is always \<open>c++\<close>.
\<close>

theorem classy_ext_platform:
  "(ext_libraries (classy_ext n ni) = [''m'']) = (n \<noteq> ''nt'')
   \<and> (n = ''nt'' \<longrightarrow> ext_libraries (classy_ext n ni) = [])
   \<and> (n \<noteq> ''nt'' \<longrightarrow> ext_extra_compile_args (classy_ext n ni) = [''-std=c++17''])
   \<and> (n = ''nt'' \<longrightarrow> ext_extra_compile_args (classy_ext n ni) = [''/std:c++17''])
   \<and> ext_language (classy_ext n ni) = ''c++''
   \<and> ext_name (classy_ext n ni) = ''classy''
   \<and> ext_extra_compile_args (classy_ext n ni) \<in> {[''-std=c++17''], [''/std:c++17'']}"
  by (simp add: classy_ext_def)

text \<open>Both platforms, evaluated.\<close>

theorem classy_ext_platform_witness:
  "ext_libraries (classy_ext ''nt'' ''numpy/include'') = []
   \<and> ext_extra_compile_args (classy_ext ''nt'' ''numpy/include'') = [''/std:c++17'']
   \<and> ext_libraries (classy_ext ''posix'' ''numpy/include'') = [''m'']
   \<and> ext_extra_compile_args (classy_ext ''posix'' ''numpy/include'') = [''-std=c++17'']"
proof -
  have nn: "''posix'' \<noteq> ''nt''" by simp
  from classy_ext_platform [of "''nt''" "''numpy/include''"]
    classy_ext_platform [of "''posix''" "''numpy/include''"] nn
  show ?thesis by blast
qed


section \<open>Generating the wrapper before cythonizing\<close>

lemma my_cythonize_missing:
  "files w ''generate_wrapper.py'' = None \<Longrightarrow>
     my_cythonize exec cyth args kwargs w
       = (Inl (FileNotFoundError ''generate_wrapper.py''), w)"
  by (simp add: my_cythonize_def)

lemma my_cythonize_present:
  "files w ''generate_wrapper.py'' = Some code \<Longrightarrow>
     my_cythonize exec cyth args kwargs w =
       (case exec code w of (Inl e, w') \<Rightarrow> (Inl e, w') | (Inr u, w') \<Rightarrow> cyth args kwargs w')"
  by (simp add: my_cythonize_def)

text \<open>
  Claim C9. \<open>my_cythonize\<close> opens \<open>generate_wrapper.py\<close> and executes its contents before
  it calls \<open>cythonize\<close>. If the file is absent from the working directory, the call
  raises the file-not-found error and leaves the environment as it was, whatever
  \<open>exec\<close> and \<open>cythonize\<close> are, so nothing has been executed or cythonized; the script
  then fails with that error and \<open>setup\<close> is not entered. If the file is present and its
  execution returns normally, the result of \<open>my_cythonize\<close> is exactly the result of
  \<open>cythonize\<close> on the same arguments, in the environment that the execution left behind.
  If the execution raises, that exception is the result and \<open>cythonize\<close> is not called.
\<close>

theorem my_cythonize_runs_wrapper_first:
  "(files w ''generate_wrapper.py'' = None \<longrightarrow>
      my_cythonize exec cyth args kwargs w
        = (Inl (FileNotFoundError ''generate_wrapper.py''), w)
      \<and> setup_py n ni exec cyth' setup w
        = (Inl (FileNotFoundError ''generate_wrapper.py''), w))
   \<and> (\<forall>code w'. files w ''generate_wrapper.py'' = Some code \<and> exec code w = (Inr (), w') \<longrightarrow>
        my_cythonize exec cyth args kwargs w = cyth args kwargs w')
   \<and> (\<forall>code e w'. files w ''generate_wrapper.py'' = Some code \<and> exec code w = (Inl e, w') \<longrightarrow>
        my_cythonize exec cyth args kwargs w = (Inl e, w'))"
  by (auto simp: my_cythonize_missing my_cythonize_present setup_py_def)

text \<open>
  A working directory that holds \<open>generate_wrapper.py\<close>, with an \<open>exec\<close> that writes
  \<open>classy.pyx\<close> and a \<open>cythonize\<close> that reads it; and an empty working directory.
\<close>

theorem my_cythonize_runs_wrapper_first_witness:
  "my_cythonize (\<lambda>code w. (Inr (), w\<lparr>files := (files w)(''classy.pyx'' \<mapsto> code)\<rparr>))
      (\<lambda>args kwargs w. (Inr (map ext_name args, files w ''classy.pyx''), w))
      [classy_ext ''posix'' ''numpy/include''] ()
      \<lparr>files = [''generate_wrapper.py'' \<mapsto> ''pass'']\<rparr>
    = ((Inr ([''classy''], Some ''pass'')
         :: unit error + (string list \<times> string option)),
       \<lparr>files = [''generate_wrapper.py'' \<mapsto> ''pass'', ''classy.pyx'' \<mapsto> ''pass'']\<rparr>)
   \<and> my_cythonize (\<lambda>code w. (Inr (), w))
      (\<lambda>args kwargs w. (Inr (map ext_name args), w))
      [classy_ext ''posix'' ''numpy/include''] () \<lparr>files = Map.empty\<rparr>
    = ((Inl (FileNotFoundError ''generate_wrapper.py'') :: unit error + string list),
       \<lparr>files = Map.empty\<rparr>)"
proof -
  let ?w = "\<lparr>files = [''generate_wrapper.py'' \<mapsto> ''pass'']\<rparr>"
  let ?w' = "\<lparr>files = [''generate_wrapper.py'' \<mapsto> ''pass'', ''classy.pyx'' \<mapsto> ''pass'']\<rparr>"
  let ?exec = "\<lambda>code w. (Inr (), w\<lparr>files := (files w)(''classy.pyx'' \<mapsto> code)\<rparr>)
                 :: (unit error + unit) \<times> world"
  let ?cyth = "\<lambda>(args :: extension list) (kwargs :: unit) (w :: world).
                 ((Inr (map ext_name args, files w ''classy.pyx'')
                    :: unit error + (string list \<times> string option)), w)"
  have present: "files ?w ''generate_wrapper.py'' = Some ''pass'' \<and> ?exec ''pass'' ?w = (Inr (), ?w')"
    by simp
  have absent: "files \<lparr>files = Map.empty\<rparr> ''generate_wrapper.py'' = None"
    by simp
  have nm: "ext_name (classy_ext ''posix'' ''numpy/include'') = ''classy''"
    by (simp add: classy_ext_def)
  have a: "my_cythonize ?exec ?cyth [classy_ext ''posix'' ''numpy/include''] () ?w
           = ?cyth [classy_ext ''posix'' ''numpy/include''] () ?w'"
    using my_cythonize_runs_wrapper_first
      [where w = ?w and exec = ?exec and cyth = ?cyth
         and args = "[classy_ext ''posix'' ''numpy/include'']" and kwargs = "()",
       THEN conjunct2, THEN conjunct1, rule_format, OF present] .
  let ?exec0 = "\<lambda>(code :: string) (w :: world). ((Inr () :: unit error + unit), w)"
  let ?cyth0 = "\<lambda>(args :: extension list) (kwargs :: unit) (w :: world).
                 ((Inr (map ext_name args) :: unit error + string list), w)"
  have b: "my_cythonize ?exec0 ?cyth0 [classy_ext ''posix'' ''numpy/include''] ()
             \<lparr>files = Map.empty\<rparr>
           = (Inl (FileNotFoundError ''generate_wrapper.py''), \<lparr>files = Map.empty\<rparr>)"
    using my_cythonize_runs_wrapper_first
      [where w = "\<lparr>files = Map.empty\<rparr>" and exec = ?exec0 and cyth = ?cyth0
         and args = "[classy_ext ''posix'' ''numpy/include'']" and kwargs = "()",
       THEN conjunct1, rule_format, OF absent, THEN conjunct1] .
  from a b nm show ?thesis by simp
qed


section \<open>Failure of a wavenumber task\<close>

lemma failures_run_tasks:
  "map fst (failures (run_tasks task ks)) = [k \<leftarrow> ks. isl (task k)]
   \<and> (\<forall>(k, e) \<in> set (failures (run_tasks task ks)). k \<in> set ks \<and> task k = Inl e)"
proof (induction ks)
  case Nil
  then show ?case by (simp add: run_tasks_def)
next
  case (Cons k ks)
  then show ?case
    by (cases "task k") (auto simp: run_tasks_def)
qed

lemma failures_empty_iff:
  "failures (run_tasks task ks) = [] \<longleftrightarrow> (\<forall>k \<in> set ks. \<not> isl (task k))"
proof -
  have "failures (run_tasks task ks) = [] \<longleftrightarrow> map fst (failures (run_tasks task ks)) = []"
    by simp
  also have "\<dots> \<longleftrightarrow> [k \<leftarrow> ks. isl (task k)] = []"
    by (simp only: failures_run_tasks)
  also have "\<dots> \<longleftrightarrow> (\<forall>k \<in> set ks. \<not> isl (task k))"
    by (simp add: filter_empty_conv)
  finally show ?thesis .
qed

lemma tables_run_tasks:
  "\<forall>k \<in> set ks. \<not> isl (task k) \<Longrightarrow>
     map fst (tables (run_tasks task ks)) = ks
     \<and> (\<forall>(k, t) \<in> set (tables (run_tasks task ks)). task k = Inr t)"
proof (induction ks)
  case Nil
  then show ?case by (simp add: run_tasks_def)
next
  case (Cons k ks)
  then show ?case
    by (cases "task k") (auto simp: run_tasks_def)
qed

text \<open>
  Claim C6. The run fails if and only if some wavenumber task fails. A failed run
  returns one report and no tables; the report is not empty, names exactly the failing
  wavenumbers, in order, and gives for each the error of its own task, so a failure
  aborts only the task of its wavenumber and the other tasks still run. A successful run
  returns a table for every requested wavenumber, each the result of its task, and never
  a partial set.
\<close>

theorem pipeline_failure_policy:
  "((\<exists>k \<in> set ks. isl (task k)) \<longleftrightarrow> isl (pipeline task ks))
   \<and> (\<forall>report. pipeline task ks = Inl report \<longrightarrow>
         report \<noteq> []
         \<and> map fst report = [k \<leftarrow> ks. isl (task k)]
         \<and> (\<forall>(k, e) \<in> set report. k \<in> set ks \<and> task k = Inl e))
   \<and> (\<forall>ts. pipeline task ks = Inr ts \<longrightarrow>
         (\<forall>k \<in> set ks. \<not> isl (task k))
         \<and> map fst ts = ks
         \<and> (\<forall>(k, t) \<in> set ts. task k = Inr t))"
proof (cases "failures (run_tasks task ks) = []")
  case True
  then have ok: "\<forall>k \<in> set ks. \<not> isl (task k)"
    by (simp add: failures_empty_iff)
  have p: "pipeline task ks = Inr (tables (run_tasks task ks))"
    using True by (simp add: pipeline_def)
  from ok p tables_run_tasks [OF ok] show ?thesis by auto
next
  case False
  then have bad: "\<exists>k \<in> set ks. isl (task k)"
    by (simp add: failures_empty_iff)
  have p: "pipeline task ks = Inl (failures (run_tasks task ks))"
    using False by (simp add: pipeline_def)
  from False bad p failures_run_tasks [of task ks] show ?thesis by auto
qed

text \<open>Four wavenumbers of which two fail, and two wavenumbers that both succeed.\<close>

theorem pipeline_failure_policy_witness:
  "pipeline (\<lambda>k::nat. if k = 2 then Inl NonConvergence
                      else if k = 4 then Inl OutOfDomain else Inr (10 * k)) [1, 2, 3, 4]
     = Inl [(2, NonConvergence), (4, OutOfDomain)]
   \<and> pipeline (\<lambda>k::nat. if k = 2 then Inl NonConvergence
                      else if k = 4 then Inl OutOfDomain else Inr (10 * k)) [1, 3]
     = Inr [(1, 10), (3, 30)]"
proof -
  let ?task = "\<lambda>k::nat. if k = 2 then Inl NonConvergence
                      else if k = 4 then Inl OutOfDomain else Inr (10 * k)"
  have bad: "\<exists>k \<in> set [1, 2, 3, 4]. isl (?task k)" by simp
  have good: "\<not> (\<exists>k \<in> set [1, 3]. isl (?task k))" by simp
  from bad pipeline_failure_policy [of "[1, 2, 3, 4]" ?task]
  have "isl (pipeline ?task [1, 2, 3, 4])" by blast
  moreover from good pipeline_failure_policy [of "[1, 3]" ?task]
  have "\<not> isl (pipeline ?task [1, 3])" by blast
  ultimately show ?thesis
    by (auto simp: pipeline_def run_tasks_def)
qed

end
